theory Spec2Isabelle
  imports Complex_Main "HOL-Library.Log_Nat"
begin

section \<open>JavaScript values\<close>

text \<open>
  A JavaScript \<open>number\<close> is an IEEE 754 binary64 value: \<open>NaN\<close>, one of the two
  infinities, or a finite value, held here as the rational it denotes. The two zeros are
  not told apart. Arithmetic computes the exact result and rounds it to the nearest
  binary64 value, ties to even.
\<close>

datatype number = NaN | PosInf | NegInf | Num rat

definition pow2 :: "int \<Rightarrow> rat" where
  "pow2 e = (if 0 \<le> e then 2 ^ nat e else 1 / 2 ^ nat (- e))"

text \<open>The binary exponent of a non-zero \<open>x\<close>: the \<open>e\<close> with \<open>2^e \<le> |x| < 2^(e+1)\<close>.\<close>

definition expo :: "rat \<Rightarrow> int" where
  "expo x =
     (if 1 \<le> \<bar>x\<bar> then bitlen \<lfloor>\<bar>x\<bar>\<rfloor> - 1 else - bitlen (\<lceil>1 / \<bar>x\<bar>\<rceil> - 1))"

text \<open>Rounding to the nearest integer, a tie going to the even neighbour.\<close>

definition round_even :: "rat \<Rightarrow> int" where
  "round_even q =
     (let f = \<lfloor>q\<rfloor>; r = q - of_int f
      in if r < 1 / 2 then f else if 1 / 2 < r then f + 1 else if even f then f else f + 1)"

text \<open>
  Rounding an exact result to binary64: 53 significant bits, the spacing never finer than
  \<open>2^-1074\<close> (subnormal values), and an infinity once the rounded magnitude reaches
  \<open>2^1024\<close>. A decimal literal of the source, such as \<open>0.001\<close>, denotes
  \<open>round64 (1 / 1000)\<close>.
\<close>

definition round64 :: "rat \<Rightarrow> number" where
  "round64 x =
     (if x = 0 then Num 0
      else
        let u = pow2 (max (expo x) (- 1022) - 52);
            y = of_int (round_even (x / u)) * u
        in if pow2 1024 \<le> \<bar>y\<bar> then (if 0 < y then PosInf else NegInf) else Num y)"

fun plus_n :: "number \<Rightarrow> number \<Rightarrow> number" where
  "plus_n (Num a) (Num b) = round64 (a + b)"
| "plus_n NaN _ = NaN"
| "plus_n _ NaN = NaN"
| "plus_n PosInf NegInf = NaN"
| "plus_n NegInf PosInf = NaN"
| "plus_n PosInf _ = PosInf"
| "plus_n _ PosInf = PosInf"
| "plus_n NegInf _ = NegInf"
| "plus_n _ NegInf = NegInf"

fun sign_n :: "number \<Rightarrow> int" where
  "sign_n (Num a) = (if a = 0 then 0 else if 0 < a then 1 else - 1)"
| "sign_n PosInf = 1"
| "sign_n NegInf = - 1"
| "sign_n NaN = 0"

fun times_n :: "number \<Rightarrow> number \<Rightarrow> number" where
  "times_n (Num a) (Num b) = round64 (a * b)"
| "times_n NaN _ = NaN"
| "times_n _ NaN = NaN"
| "times_n x y =
     (if sign_n x * sign_n y = 0 then NaN
      else if 0 < sign_n x * sign_n y then PosInf else NegInf)"

text \<open>Division by the literal \<open>1_000\<close>, the only division of the source.\<close>

fun div_1000 :: "number \<Rightarrow> number" where
  "div_1000 (Num a) = round64 (a / 1000)"
| "div_1000 PosInf = PosInf"
| "div_1000 NegInf = NegInf"
| "div_1000 NaN = NaN"

text \<open>
  The values a cache entry can hold or a lookup can yield. \<open>JObj\<close> stands for any
  object (a buffer, a record); objects are opaque here and always truthy.
\<close>

datatype jsval =
  JUndefined
| JNull
| JBool bool
| JNum number
| JStr string
| JObj nat

text \<open>The truthiness test of \<open>if (v)\<close>.\<close>

fun truthy :: "jsval \<Rightarrow> bool" where
  "truthy JUndefined = False"
| "truthy JNull = False"
| "truthy (JBool b) = b"
| "truthy (JNum NaN) = False"
| "truthy (JNum PosInf) = True"
| "truthy (JNum NegInf) = True"
| "truthy (JNum (Num r)) = (r \<noteq> 0)"
| "truthy (JStr s) = (s \<noteq> [])"
| "truthy (JObj _) = True"

text \<open>The nullish coalescing operator \<open>v ?? d\<close>.\<close>

fun nullish :: "jsval \<Rightarrow> jsval \<Rightarrow> jsval" where
  "nullish JUndefined d = d"
| "nullish JNull d = d"
| "nullish v d = v"

section \<open>Module \<open>now.ts\<close>\<close>

text \<open>
  A \<open>Date\<close> holds a time value: a whole number of milliseconds of magnitude at most
  \<open>8.64e15\<close>, or \<open>NaN\<close> (an invalid date). \<open>setTime\<close> and the constructor pass
  their argument through \<open>TimeClip\<close>, which truncates towards zero and rejects values
  that are not finite or out of range.
\<close>

definition trunc :: "rat \<Rightarrow> int" where
  "trunc x = (if 0 \<le> x then \<lfloor>x\<rfloor> else \<lceil>x\<rceil>)"

fun TimeClip :: "number \<Rightarrow> number" where
  "TimeClip NaN = NaN"
| "TimeClip PosInf = NaN"
| "TimeClip NegInf = NaN"
| "TimeClip (Num t) =
     (if 8640000000000000 < \<bar>t\<bar> then NaN else Num (of_int (trunc t)))"

record Now =
  now :: number

text \<open>
  \<open>new Now(time)\<close> for a numeric or omitted \<open>time\<close>; \<open>clock\<close> is what
  \<open>Date.now()\<close> returns. A string or \<open>Date\<close> argument reaches the same field through
  the platform's date parser, which is not modelled.
\<close>

definition new_Now :: "number option \<Rightarrow> number \<Rightarrow> Now" where
  "new_Now time clock =
     \<lparr>now = TimeClip (case time of None \<Rightarrow> clock | Some t \<Rightarrow> t)\<rparr>"

text \<open>Each method returns its result together with the updated instance.\<close>

definition addSeconds :: "Now \<Rightarrow> number \<Rightarrow> number \<times> Now" where
  "addSeconds N seconds =
     (let N' = N\<lparr>now := TimeClip (plus_n (now N) (times_n seconds (Num 1000)))\<rparr>
      in (div_1000 (now N'), N'))"

definition addMinutes :: "Now \<Rightarrow> number \<Rightarrow> number \<times> Now" where
  "addMinutes N minutes = addSeconds N (times_n minutes (Num 60))"

definition addHours :: "Now \<Rightarrow> number \<Rightarrow> number \<times> Now" where
  "addHours N hours = addMinutes N (times_n hours (Num 60))"

definition addDays :: "Now \<Rightarrow> number \<Rightarrow> number \<times> Now" where
  "addDays N days = addHours N (times_n days (Num 24))"

section \<open>The \<open>Memcached\<close> facade\<close>

subsection \<open>Keys\<close>

text \<open>
  A key is a string, an array of path segments, or a number or symbol; the last two are
  represented by the text their \<open>toString()\<close> yields.
\<close>

datatype key = KString string | KArray "string list" | KOther string

text \<open>\<open>Array.prototype.join\<close> on an array of strings.\<close>

fun join :: "string \<Rightarrow> string list \<Rightarrow> string" where
  "join sep [] = []"
| "join sep [x] = x"
| "join sep (x # y # ys) = x @ sep @ join sep (y # ys)"

fun resolveKey :: "key \<Rightarrow> string" where
  "resolveKey (KArray xs) = join ''/'' xs"
| "resolveKey (KString s) = s"
| "resolveKey (KOther s) = s"

subsection \<open>Option objects\<close>

text \<open>
  An optional property of an options object is absent, present with the value
  \<open>undefined\<close>, or present with a value. Object spread copies every present property,
  also one whose value is \<open>undefined\<close>.
\<close>

datatype 'a opt_prop = Absent | Undef | Has 'a

record CommonCommandOption =
  noreply :: "bool opt_prop"

record StoreCommandOptions = CommonCommandOption +
  ignoreNotStored :: "bool opt_prop"
  compress :: "bool opt_prop"

text \<open>
  The object literal \<open>{ lifetime, ...options }\<close>. The property holds whatever the
  method's \<open>lifetime\<close> parameter holds at run time.
\<close>

record StoreOptionsLifetime = StoreCommandOptions +
  lifetime :: jsval

definition with_lifetime :: "jsval \<Rightarrow> StoreCommandOptions option \<Rightarrow> StoreOptionsLifetime" where
  "with_lifetime l options =
     (case options of
        None \<Rightarrow> \<lparr>noreply = Absent, ignoreNotStored = Absent, compress = Absent, lifetime = l\<rparr>
      | Some opt \<Rightarrow> \<lparr>noreply = noreply opt, ignoreNotStored = ignoreNotStored opt,
                    compress = compress opt, lifetime = l\<rparr>)"

text \<open>The object literal \<open>{ noreply: true, ...options }\<close>.\<close>

definition with_noreply :: "StoreCommandOptions option \<Rightarrow> StoreCommandOptions" where
  "with_noreply options =
     (case options of
        None \<Rightarrow> \<lparr>noreply = Has True, ignoreNotStored = Absent, compress = Absent\<rparr>
      | Some opt \<Rightarrow>
          \<lparr>noreply = (case noreply opt of Absent \<Rightarrow> Has True | p \<Rightarrow> p),
           ignoreNotStored = ignoreNotStored opt, compress = compress opt\<rparr>)"

subsection \<open>The underlying client\<close>

text \<open>
  \<open>MemcacheClient\<close> comes from the package \<open>memcache-client\<close>. The facade only calls
  its methods, so the client is a parameter: every call is recorded in a trace, and the
  client decides from the trace so far and the call whether the promise resolves (and
  to what) or rejects.
\<close>

datatype error = Rejected string

record retrieval =
  value_r :: jsval

datatype call =
  CGet string
| CSet string jsval StoreOptionsLifetime
| CAdd string jsval StoreOptionsLifetime
| CReplace string jsval StoreOptionsLifetime
| CAppend string jsval StoreOptionsLifetime
| CPrepend string jsval StoreOptionsLifetime
| CIncr string number StoreOptionsLifetime
| CDecr string number StoreOptionsLifetime
| CDelete string "StoreCommandOptions option"
| CTouch string jsval "CommonCommandOption option"
| CCmd string "CommonCommandOption option"
| CGets "string list"

datatype event = Client call | FnGet

record MemcacheClient =
  on_get :: "event list \<Rightarrow> string \<Rightarrow> error + retrieval option"
  on_gets :: "event list \<Rightarrow> string list \<Rightarrow> error + (string \<rightharpoonup> retrieval)"
  on_call :: "event list \<Rightarrow> call \<Rightarrow> error + jsval"

text \<open>
  A promise is run on the trace so far; it resolves (\<open>Inr\<close>) or rejects (\<open>Inl\<close>) and
  returns the extended trace.
\<close>

type_synonym 'a promise = "event list \<Rightarrow> (error + 'a) \<times> event list"

definition resolve :: "'a \<Rightarrow> 'a promise" where
  "resolve x = (\<lambda>h. (Inr x, h))"

text \<open>\<open>await p\<close> followed by the rest of an async function: a rejection propagates.\<close>

definition await :: "'a promise \<Rightarrow> ('a \<Rightarrow> 'b promise) \<Rightarrow> 'b promise" where
  "await p k = (\<lambda>h. case p h of (Inl e, h') \<Rightarrow> (Inl e, h') | (Inr x, h') \<Rightarrow> k x h')"

text \<open>\<open>p.then(f)\<close> for a callback that returns a plain value.\<close>

definition then_p :: "'a promise \<Rightarrow> ('a \<Rightarrow> 'b) \<Rightarrow> 'b promise" where
  "then_p p f = await p (\<lambda>x. resolve (f x))"

definition client_get :: "MemcacheClient \<Rightarrow> string \<Rightarrow> retrieval option promise" where
  "client_get c k = (\<lambda>h. (on_get c h k, h @ [Client (CGet k)]))"

definition client_gets :: "MemcacheClient \<Rightarrow> string list \<Rightarrow> (string \<rightharpoonup> retrieval) promise" where
  "client_gets c ks = (\<lambda>h. (on_gets c h ks, h @ [Client (CGets ks)]))"

definition client_call :: "MemcacheClient \<Rightarrow> call \<Rightarrow> jsval promise" where
  "client_call c x = (\<lambda>h. (on_call c h x, h @ [Client x]))"

text \<open>Calling the caller's compute function \<open>fnGet()\<close>.\<close>

definition invoke :: "(event list \<Rightarrow> error + jsval) \<Rightarrow> jsval promise" where
  "invoke fnGet = (\<lambda>h. (fnGet h, h @ [FnGet]))"

subsection \<open>The class\<close>

text \<open>
  The lifetime table is a plain object used as a dictionary. It has own properties, each
  holding a number or \<open>undefined\<close>, and the properties it inherits through its
  prototype chain. Reading \<open>table[k]\<close> yields the own property \<open>k\<close> when there is
  one, else the inherited property \<open>k\<close>, else \<open>undefined\<close>.
\<close>

record lifetime_table =
  own :: "string \<Rightarrow> number opt_prop"
  inherited :: "string \<rightharpoonup> jsval"

definition get_property :: "lifetime_table \<Rightarrow> string \<Rightarrow> jsval" where
  "get_property t k =
     (case own t k of
        Has n \<Rightarrow> JNum n
      | Undef \<Rightarrow> JUndefined
      | Absent \<Rightarrow> (case inherited t k of Some v \<Rightarrow> v | None \<Rightarrow> JUndefined))"

text \<open>
  The properties that the language standard puts on \<open>Object.prototype\<close>, which every
  object literal inherits. Each is a function, an object of its own: \<open>JObj 0\<close> is the
  function \<open>Object\<close>, and so on.
\<close>

definition Object_prototype :: "string \<rightharpoonup> jsval" where
  "Object_prototype =
     map_of [(''constructor'', JObj 0), (''hasOwnProperty'', JObj 1),
             (''isPrototypeOf'', JObj 2), (''propertyIsEnumerable'', JObj 3),
             (''toLocaleString'', JObj 4), (''toString'', JObj 5), (''valueOf'', JObj 6)]"

text \<open>The object literal \<open>{}\<close>, the default of the constructor's table.\<close>

definition empty_object :: lifetime_table where
  "empty_object = \<lparr>own = (\<lambda>k. Absent), inherited = Object_prototype\<rparr>"

record Memcached =
  client :: MemcacheClient
  lifeTime :: lifetime_table
  scope :: "string option"

text \<open>
  The constructor: the client is built from the caller's connection options by the
  library and is taken as given here; the lifetime table defaults to \<open>{}\<close>; the scope
  is kept as it is passed.
\<close>

definition new_Memcached :: "MemcacheClient \<Rightarrow> lifetime_table option \<Rightarrow> string option
    \<Rightarrow> Memcached" where
  "new_Memcached c table sc =
     \<lparr>client = c, lifeTime = (case table of None \<Rightarrow> empty_object | Some t \<Rightarrow> t), scope = sc\<rparr>"

text \<open>
  A \<open>lifetime\<close> argument is the value passed, \<open>undefined\<close> when it is omitted. The
  parameter's default, \<open>this.lifeTime[this.resolveKey(key)] ?? 0\<close>, replaces an
  argument that is \<open>undefined\<close>.
\<close>

definition lifetime_arg :: "Memcached \<Rightarrow> key \<Rightarrow> jsval \<Rightarrow> jsval" where
  "lifetime_arg M key lifetime' =
     (if lifetime' = JUndefined
      then nullish (get_property (lifeTime M) (resolveKey key)) (JNum (Num 0))
      else lifetime')"

text \<open>The optional chaining \<open>res?.value\<close>.\<close>

definition opt_value :: "retrieval option \<Rightarrow> jsval" where
  "opt_value res = (case res of None \<Rightarrow> JUndefined | Some r \<Rightarrow> value_r r)"

definition get :: "Memcached \<Rightarrow> key \<Rightarrow> jsval promise" where
  "get M key = then_p (client_get (client M) (resolveKey key)) opt_value"

definition put :: "Memcached \<Rightarrow> key \<Rightarrow> jsval \<Rightarrow> jsval \<Rightarrow> StoreCommandOptions option
    \<Rightarrow> jsval promise" where
  "put M key v lifetime' options =
     client_call (client M)
       (CSet (resolveKey key) v (with_lifetime (lifetime_arg M key lifetime') options))"

definition forever :: "Memcached \<Rightarrow> key \<Rightarrow> jsval \<Rightarrow> StoreCommandOptions option \<Rightarrow> jsval promise" where
  "forever M key v options =
     client_call (client M) (CSet (resolveKey key) v (with_lifetime (JNum (Num 0)) options))"

definition delete :: "Memcached \<Rightarrow> key \<Rightarrow> StoreCommandOptions option \<Rightarrow> jsval promise" where
  "delete M key options = client_call (client M) (CDelete (resolveKey key) options)"

definition forget :: "Memcached \<Rightarrow> key \<Rightarrow> StoreCommandOptions option \<Rightarrow> jsval promise" where
  "forget M key options = delete M key options"

definition add :: "Memcached \<Rightarrow> key \<Rightarrow> jsval \<Rightarrow> jsval \<Rightarrow> StoreCommandOptions option
    \<Rightarrow> jsval promise" where
  "add M key v lifetime' options =
     client_call (client M)
       (CAdd (resolveKey key) v (with_lifetime (lifetime_arg M key lifetime') options))"

definition increment :: "Memcached \<Rightarrow> key \<Rightarrow> number option \<Rightarrow> jsval
    \<Rightarrow> StoreCommandOptions option \<Rightarrow> jsval promise" where
  "increment M key v lifetime' options =
     client_call (client M)
       (CIncr (resolveKey key) (case v of None \<Rightarrow> Num 1 | Some n \<Rightarrow> n)
          (with_lifetime (lifetime_arg M key lifetime') options))"

definition decrement :: "Memcached \<Rightarrow> key \<Rightarrow> number option \<Rightarrow> jsval
    \<Rightarrow> StoreCommandOptions option \<Rightarrow> jsval promise" where
  "decrement M key v lifetime' options =
     client_call (client M)
       (CDecr (resolveKey key) (case v of None \<Rightarrow> Num 1 | Some n \<Rightarrow> n)
          (with_lifetime (lifetime_arg M key lifetime') options))"

definition remember :: "Memcached \<Rightarrow> key \<Rightarrow> jsval \<Rightarrow> (event list \<Rightarrow> error + jsval)
    \<Rightarrow> StoreCommandOptions option \<Rightarrow> jsval promise" where
  "remember M key lifetime' fnGet options =
     await (get M key) (\<lambda>inCache.
       if truthy inCache then resolve inCache
       else
         await (invoke fnGet) (\<lambda>v.
         await (put M key v (lifetime_arg M key lifetime') (Some (with_noreply options)))
           (\<lambda>_. resolve v)))"

definition rememberForever :: "Memcached \<Rightarrow> key \<Rightarrow> (event list \<Rightarrow> error + jsval)
    \<Rightarrow> StoreCommandOptions option \<Rightarrow> jsval promise" where
  "rememberForever M key fnGet options = remember M key (JNum (Num 0)) fnGet options"

definition pull :: "Memcached \<Rightarrow> key \<Rightarrow> jsval \<Rightarrow> jsval promise" where
  "pull M key def =
     await (get M key) (\<lambda>val.
     await (if truthy val then delete M key None else resolve JUndefined)
       (\<lambda>_. resolve (nullish val def)))"

definition replace :: "Memcached \<Rightarrow> key \<Rightarrow> jsval \<Rightarrow> jsval \<Rightarrow> StoreCommandOptions option
    \<Rightarrow> jsval promise" where
  "replace M key v lifetime' options =
     client_call (client M)
       (CReplace (resolveKey key) v (with_lifetime (lifetime_arg M key lifetime') options))"

definition append_m :: "Memcached \<Rightarrow> key \<Rightarrow> jsval \<Rightarrow> jsval \<Rightarrow> StoreCommandOptions option
    \<Rightarrow> jsval promise" where
  "append_m M key v lifetime' options =
     client_call (client M)
       (CAppend (resolveKey key) v (with_lifetime (lifetime_arg M key lifetime') options))"

definition prepend :: "Memcached \<Rightarrow> key \<Rightarrow> jsval \<Rightarrow> jsval \<Rightarrow> StoreCommandOptions option
    \<Rightarrow> jsval promise" where
  "prepend M key v lifetime' options =
     client_call (client M)
       (CPrepend (resolveKey key) v (with_lifetime (lifetime_arg M key lifetime') options))"

text \<open>
  The template literal \<open>`flush_all ${delay}`\<close> renders an omitted \<open>delay\<close> as the
  text \<open>undefined\<close>; the options object \<open>{ noreply: noReply }\<close> always has the property.
\<close>

definition flush :: "Memcached \<Rightarrow> string option \<Rightarrow> bool option \<Rightarrow> jsval promise" where
  "flush M delay noReply =
     client_call (client M)
       (CCmd (''flush_all '' @ (case delay of None \<Rightarrow> ''undefined'' | Some d \<Rightarrow> d))
          (Some \<lparr>noreply = (case noReply of None \<Rightarrow> Undef | Some b \<Rightarrow> Has b)\<rparr>))"

definition incLifetime :: "Memcached \<Rightarrow> key \<Rightarrow> jsval \<Rightarrow> CommonCommandOption option
    \<Rightarrow> jsval promise" where
  "incLifetime M key lifetime' options =
     client_call (client M) (CTouch (resolveKey key) (lifetime_arg M key lifetime') options)"

definition cmd :: "Memcached \<Rightarrow> string \<Rightarrow> CommonCommandOption option \<Rightarrow> jsval promise" where
  "cmd M command options = client_call (client M) (CCmd command options)"

text \<open>\<open>gets\<close> hands the keys to the client as they are and reads the reply by key.\<close>

definition gets :: "Memcached \<Rightarrow> string list \<Rightarrow> jsval list promise" where
  "gets M keys =
     then_p (client_gets (client M) keys)
       (\<lambda>data. map (\<lambda>key. opt_value (data key)) keys)"

subsection \<open>A client for concrete runs\<close>

text \<open>
  A client that answers \<open>get\<close> and \<open>gets\<close> from a fixed list of entries and every
  other call with the given outcome.
\<close>

definition test_client :: "(string \<times> jsval) list \<Rightarrow> error + jsval \<Rightarrow> MemcacheClient" where
  "test_client entries outcome =
     \<lparr>on_get = (\<lambda>h k. Inr (map_option (\<lambda>v. \<lparr>value_r = v\<rparr>) (map_of entries k))),
      on_gets = (\<lambda>h ks. Inr (\<lambda>k. if k \<in> set ks
                                  then map_option (\<lambda>v. \<lparr>value_r = v\<rparr>) (map_of entries k)
                                  else None)),
      on_call = (\<lambda>h c. outcome)\<rparr>"

section \<open>Running the promises\<close>

lemmas promise_defs = resolve_def await_def then_p_def client_get_def client_gets_def
  client_call_def invoke_def

lemma get_run:
  "get M key h =
     (case on_get (client M) h (resolveKey key) of
        Inl e \<Rightarrow> Inl e
      | Inr res \<Rightarrow> Inr (opt_value res),
      h @ [Client (CGet (resolveKey key))])"
  by (simp add: get_def promise_defs split: sum.splits)

text \<open>
  What \<open>remember\<close> returns and which calls it makes, case by case: the lookup rejects,
  it yields a truthy value, the compute function rejects, or the value is computed and
  stored.
\<close>

lemma lifetime_arg_idem: "lifetime_arg M key (lifetime_arg M key lt) = lifetime_arg M key lt"
  by (cases "get_property (lifeTime M) (resolveKey key)") (simp_all add: lifetime_arg_def)

lemma remember_run:
  "remember M key lt fnGet options h =
     (let k = resolveKey key; h1 = h @ [Client (CGet k)]
      in case on_get (client M) h k of
           Inl e \<Rightarrow> (Inl e, h1)
         | Inr res \<Rightarrow>
             if truthy (opt_value res) then (Inr (opt_value res), h1)
             else
               let h2 = h1 @ [FnGet]
               in case fnGet h1 of
                    Inl e \<Rightarrow> (Inl e, h2)
                  | Inr v \<Rightarrow>
                      let c = CSet k v (with_lifetime (lifetime_arg M key lt)
                                (Some (with_noreply options)))
                      in (case on_call (client M) h2 c of Inl e \<Rightarrow> Inl e | Inr _ \<Rightarrow> Inr v,
                          h2 @ [Client c]))"
  by (simp add: remember_def put_def get_run await_def resolve_def client_call_def invoke_def
      lifetime_arg_idem Let_def split: sum.splits)

lemma pull_run:
  "pull M key def h =
     (let k = resolveKey key; h1 = h @ [Client (CGet k)]
      in case on_get (client M) h k of
           Inl e \<Rightarrow> (Inl e, h1)
         | Inr res \<Rightarrow>
             if truthy (opt_value res)
             then (case on_call (client M) h1 (CDelete k None) of
                     Inl e \<Rightarrow> Inl e
                   | Inr _ \<Rightarrow> Inr (nullish (opt_value res) def),
                   h1 @ [Client (CDelete k None)])
             else (Inr (nullish (opt_value res) def), h1))"
  by (simp add: pull_def delete_def get_run await_def resolve_def client_call_def Let_def
      split: sum.splits)

lemma nullish_eq: "nullish v d = (if v = JUndefined \<or> v = JNull then d else v)"
  by (cases v) simp_all

lemma test_client_sel:
  "on_get (test_client entries outcome) h k =
     Inr (map_option (\<lambda>v. \<lparr>value_r = v\<rparr>) (map_of entries k))"
  "on_call (test_client entries outcome) h c = outcome"
  by (simp_all add: test_client_def)

lemma test_client_gets:
  "on_gets (test_client entries outcome) h ks =
     Inr (\<lambda>k. if k \<in> set ks then map_option (\<lambda>v. \<lparr>value_r = v\<rparr>) (map_of entries k) else None)"
  by (simp add: test_client_def)

lemma gets_run:
  "gets M ks h =
     (case on_gets (client M) h ks of
        Inl e \<Rightarrow> Inl e
      | Inr data \<Rightarrow> Inr (map (\<lambda>key. opt_value (data key)) ks),
      h @ [Client (CGets ks)])"
  by (simp add: gets_def promise_defs split: sum.splits)

lemma lifetime_arg_given: "l \<noteq> JUndefined \<Longrightarrow> lifetime_arg M key l = l"
  by (simp add: lifetime_arg_def)

lemma lifetime_arg_scope: "lifetime_arg (M\<lparr>scope := sc\<rparr>) key lt = lifetime_arg M key lt"
  by (simp add: lifetime_arg_def)

lemma lifetime_with_lifetime: "lifetime (with_lifetime l options) = l"
  by (cases options) (simp_all add: with_lifetime_def)

lemmas facade_defs = get_def put_def forever_def delete_def forget_def add_def increment_def
  decrement_def remember_def rememberForever_def pull_def replace_def append_m_def prepend_def
  flush_def incLifetime_def cmd_def gets_def

section \<open>\<open>remember\<close> and \<open>pull\<close>\<close>

text \<open>
  C1. \<open>remember\<close> is documented as get-or-compute-and-store: a value found in the cache
  is returned without calling the compute function and without a store. Run on a cache
  that holds the number \<open>0\<close> under \<open>k\<close>, the source finds the value, fails the test
  \<open>if (inCache)\<close>, calls the compute function, overwrites the entry with the computed
  \<open>5\<close> and returns \<open>5\<close>.
\<close>

theorem remember_stored_zero_recomputed:
  "remember
       \<lparr>client = test_client [(''k'', JNum (Num 0))] (Inr (JStr ''STORED'')),
        lifeTime = empty_object, scope = None\<rparr>
       (KString ''k'') (JNum (Num 60)) (\<lambda>h. Inr (JNum (Num 5))) None [] =
     (Inr (JNum (Num 5)),
      [Client (CGet ''k''), FnGet,
       Client (CSet ''k'' (JNum (Num 5))
         \<lparr>noreply = Has True, ignoreNotStored = Absent, compress = Absent,
          lifetime = JNum (Num 60)\<rparr>)])"
  by (simp add: remember_run test_client_sel opt_value_def with_lifetime_def with_noreply_def
      lifetime_arg_def Let_def)

text \<open>
  C2. \<open>pull\<close> is documented as get-then-delete: a key that is present is deleted and
  its value returned. Run on a cache that holds the number \<open>0\<close> under \<open>k\<close>, the source
  returns the \<open>0\<close> but makes no \<open>delete\<close> call: the only call is the \<open>get\<close>.
\<close>

theorem pull_stored_zero_not_deleted:
  "pull
       \<lparr>client = test_client [(''k'', JNum (Num 0))] (Inr (JStr ''DELETED'')),
        lifeTime = empty_object, scope = None\<rparr>
       (KString ''k'') (JStr ''d'') [] =
     (Inr (JNum (Num 0)), [Client (CGet ''k'')])"
  by (simp add: pull_run test_client_sel opt_value_def Let_def)

text \<open>
  C3, as stated: a key present with a falsy value is handled like a miss, and \<open>pull\<close>
  then returns the default instead of the stored value. That fails for the empty string
  stored under \<open>k\<close>: \<open>pull\<close> with the default \<open>d\<close> returns the empty string, because
  \<open>val ?? def\<close> replaces only \<open>undefined\<close> and \<open>null\<close>.
\<close>

theorem pull_falsy_default_counterexample:
  "fst (pull
       \<lparr>client = test_client [(''k'', JStr [])] (Inr (JStr ''DELETED'')),
        lifeTime = empty_object, scope = None\<rparr>
       (KString ''k'') (JStr ''d'') []) = Inr (JStr [])
   \<and> Inr (JStr []) \<noteq> (Inr (JStr ''d'') :: error + jsval)"
  by (simp add: pull_run test_client_sel opt_value_def Let_def)

text \<open>
  C3, amended: when the lookup yields an entry whose value is falsy, \<open>remember\<close> calls the
  compute function and, once that resolves, stores the computed value over the entry;
  \<open>pull\<close> makes no \<open>delete\<close> call and returns the stored value itself, the default only
  when the stored value is \<open>undefined\<close> or \<open>null\<close>.
\<close>

theorem falsy_value_in_remember_and_pull:
  assumes "on_get (client M) h (resolveKey key) = Inr (Some r)"
    and "\<not> truthy (value_r r)"
  shows "(fnGet (h @ [Client (CGet (resolveKey key))]) = Inr v \<longrightarrow>
           snd (remember M key lt fnGet options h) =
             h @ [Client (CGet (resolveKey key)), FnGet,
                  Client (CSet (resolveKey key) v
                    (with_lifetime (lifetime_arg M key lt) (Some (with_noreply options))))])
       \<and> pull M key def h =
           (Inr (if value_r r = JUndefined \<or> value_r r = JNull then def else value_r r),
            h @ [Client (CGet (resolveKey key))])"
  using assms by (simp add: remember_run pull_run opt_value_def Let_def nullish_eq)

theorem falsy_value_in_remember_and_pull_witness:
  "snd (remember
       \<lparr>client = test_client [(''k'', JNum (Num 0))] (Inr (JStr ''STORED'')),
        lifeTime = empty_object, scope = None\<rparr>
       (KString ''k'') (JNum (Num 60)) (\<lambda>h. Inr (JNum (Num 5))) None []) =
     [Client (CGet ''k''), FnGet,
      Client (CSet ''k'' (JNum (Num 5))
        \<lparr>noreply = Has True, ignoreNotStored = Absent, compress = Absent,
         lifetime = JNum (Num 60)\<rparr>)]
   \<and> pull
       \<lparr>client = test_client [(''k'', JNum (Num 0))] (Inr (JStr ''STORED'')),
        lifeTime = empty_object, scope = None\<rparr>
       (KString ''k'') (JStr ''d'') [] = (Inr (JNum (Num 0)), [Client (CGet ''k'')])"
  using falsy_value_in_remember_and_pull
    [of "\<lparr>client = test_client [(''k'', JNum (Num 0))] (Inr (JStr ''STORED'')),
          lifeTime = empty_object, scope = None\<rparr>" "[]" "KString ''k''"
        "\<lparr>value_r = JNum (Num 0)\<rparr>" "\<lambda>h. Inr (JNum (Num 5))" "JNum (Num 5)"
        "JNum (Num 60)" None "JStr ''d''"]
  by (simp add: test_client_sel with_lifetime_def with_noreply_def lifetime_arg_def)

text \<open>
  C9, as stated: on a miss \<open>remember\<close> returns the computed value without awaiting the
  store, so a failed store is silent. The source awaits the promise of \<open>put\<close>: with a
  client whose \<open>set\<close> rejects, \<open>remember\<close> rejects with that error instead of returning
  the computed \<open>5\<close>.
\<close>

theorem remember_store_rejects_counterexample:
  "remember
       \<lparr>client = test_client [] (Inl (Rejected ''ECONNRESET'')),
        lifeTime = empty_object, scope = None\<rparr>
       (KString ''k'') (JNum (Num 60)) (\<lambda>h. Inr (JNum (Num 5))) None [] =
     (Inl (Rejected ''ECONNRESET''),
      [Client (CGet ''k''), FnGet,
       Client (CSet ''k'' (JNum (Num 5))
         \<lparr>noreply = Has True, ignoreNotStored = Absent, compress = Absent,
          lifetime = JNum (Num 60)\<rparr>)])"
  by (simp add: remember_run test_client_sel opt_value_def with_lifetime_def with_noreply_def
      lifetime_arg_def Let_def)

text \<open>
  C9, amended: when \<open>remember\<close> misses and the compute function resolves, the store is
  issued with \<open>noreply\<close> set to \<open>true\<close> unless the caller's options carry a \<open>noreply\<close>
  property of their own, which then wins. \<open>remember\<close> awaits the store: it returns the
  computed value when the store's promise resolves, whatever the reply, and rejects with
  the store's error when that promise rejects.
\<close>

theorem remember_store_noreply:
  fixes M :: Memcached and key :: key and lt :: jsval
    and options :: "StoreCommandOptions option"
  defines "k \<equiv> resolveKey key"
  defines "so \<equiv> with_lifetime (lifetime_arg M key lt) (Some (with_noreply options))"
  assumes "on_get (client M) h k = Inr res" and "\<not> truthy (opt_value res)"
    and "fnGet (h @ [Client (CGet k)]) = Inr v"
  shows "snd (remember M key lt fnGet options h) =
           h @ [Client (CGet k), FnGet, Client (CSet k v so)]
       \<and> noreply so =
           (case options of
              None \<Rightarrow> Has True
            | Some opt \<Rightarrow> (case noreply opt of Absent \<Rightarrow> Has True | p \<Rightarrow> p))
       \<and> fst (remember M key lt fnGet options h) =
           (case on_call (client M) (h @ [Client (CGet k), FnGet]) (CSet k v so) of
              Inl e \<Rightarrow> Inl e
            | Inr reply \<Rightarrow> Inr v)"
  using assms(3-5) unfolding k_def so_def
  by (simp add: remember_run Let_def with_lifetime_def with_noreply_def split: option.splits)

theorem remember_store_noreply_witness:
  "remember
       \<lparr>client = test_client [] (Inr (JStr ''STORED'')),
        lifeTime = empty_object, scope = None\<rparr>
       (KString ''k'') (JNum (Num 60)) (\<lambda>h. Inr (JNum (Num 5)))
       (Some \<lparr>noreply = Has False, ignoreNotStored = Absent, compress = Has True\<rparr>) [] =
     (Inr (JNum (Num 5)),
      [Client (CGet ''k''), FnGet,
       Client (CSet ''k'' (JNum (Num 5))
         \<lparr>noreply = Has False, ignoreNotStored = Absent, compress = Has True,
          lifetime = JNum (Num 60)\<rparr>)])"
  using remember_store_noreply
    [of "\<lparr>client = test_client [] (Inr (JStr ''STORED'')),
          lifeTime = empty_object, scope = None\<rparr>" "[]" "KString ''k''" None
        "\<lambda>h. Inr (JNum (Num 5))" "JNum (Num 5)" "JNum (Num 60)"
        "Some \<lparr>noreply = Has False, ignoreNotStored = Absent, compress = Has True\<rparr>"]
  by (simp add: test_client_sel opt_value_def with_lifetime_def with_noreply_def
      lifetime_arg_def prod_eq_iff)

section \<open>Keys and the scope\<close>

text \<open>
  C4, as stated: a scope given to the constructor is composed into every key sent to the
  client. With the scope \<open>app\<close>, \<open>get\<close> of the key \<open>user\<close> sends \<open>user\<close> and \<open>put\<close>
  of the path \<open>[user, 7]\<close> sends \<open>user/7\<close>: the scope appears in neither.
\<close>

theorem scope_prefix_counterexample:
  "snd (get (new_Memcached (test_client [] (Inr (JStr ''STORED''))) None (Some ''app''))
          (KString ''user'') []) = [Client (CGet ''user'')]
   \<and> snd (put (new_Memcached (test_client [] (Inr (JStr ''STORED''))) None (Some ''app''))
            (KArray [''user'', ''7'']) (JNum (Num 1)) (JNum (Num 60)) None []) =
       [Client (CSet ''user/7'' (JNum (Num 1))
          \<lparr>noreply = Absent, ignoreNotStored = Absent, compress = Absent,
           lifetime = JNum (Num 60)\<rparr>)]"
  by (simp add: new_Memcached_def get_run put_def client_call_def with_lifetime_def
      lifetime_arg_def)

text \<open>
  C4, amended: the constructor only stores the scope, and no operation reads it: every
  operation behaves the same whatever the scope is. The key an operation resolves and
  sends to the client is the caller's key, an array being joined with \<open>/\<close>: every call
  that \<open>get\<close>, \<open>put\<close>, \<open>forever\<close>, \<open>delete\<close>, \<open>forget\<close>, \<open>add\<close>, \<open>increment\<close>,
  \<open>decrement\<close>, \<open>remember\<close>, \<open>pull\<close>, \<open>replace\<close>, \<open>append\<close>, \<open>prepend\<close> and
  \<open>incLifetime\<close> make carries that key, and \<open>gets\<close> hands its keys over as given.
\<close>

theorem scope_is_not_consulted:
  fixes M :: Memcached and key :: key
  defines "k \<equiv> resolveKey key"
  shows "new_Memcached c table sc = (new_Memcached c table None)\<lparr>scope := sc\<rparr>
   \<and> get (M\<lparr>scope := sc\<rparr>) = get M
   \<and> put (M\<lparr>scope := sc\<rparr>) = put M
   \<and> forever (M\<lparr>scope := sc\<rparr>) = forever M
   \<and> delete (M\<lparr>scope := sc\<rparr>) = delete M
   \<and> forget (M\<lparr>scope := sc\<rparr>) = forget M
   \<and> add (M\<lparr>scope := sc\<rparr>) = add M
   \<and> increment (M\<lparr>scope := sc\<rparr>) = increment M
   \<and> decrement (M\<lparr>scope := sc\<rparr>) = decrement M
   \<and> remember (M\<lparr>scope := sc\<rparr>) = remember M
   \<and> rememberForever (M\<lparr>scope := sc\<rparr>) = rememberForever M
   \<and> pull (M\<lparr>scope := sc\<rparr>) = pull M
   \<and> replace (M\<lparr>scope := sc\<rparr>) = replace M
   \<and> append_m (M\<lparr>scope := sc\<rparr>) = append_m M
   \<and> prepend (M\<lparr>scope := sc\<rparr>) = prepend M
   \<and> flush (M\<lparr>scope := sc\<rparr>) = flush M
   \<and> incLifetime (M\<lparr>scope := sc\<rparr>) = incLifetime M
   \<and> cmd (M\<lparr>scope := sc\<rparr>) = cmd M
   \<and> gets (M\<lparr>scope := sc\<rparr>) = gets M
   \<and> resolveKey (KString s) = s
   \<and> resolveKey (KArray xs) = join ''/'' xs
   \<and> snd (get M key h) = h @ [Client (CGet k)]
   \<and> snd (put M key v lt options h) =
       h @ [Client (CSet k v (with_lifetime (lifetime_arg M key lt) options))]
   \<and> snd (forever M key v options h) =
       h @ [Client (CSet k v (with_lifetime (JNum (Num 0)) options))]
   \<and> snd (delete M key options h) = h @ [Client (CDelete k options)]
   \<and> snd (forget M key options h) = h @ [Client (CDelete k options)]
   \<and> snd (add M key v lt options h) =
       h @ [Client (CAdd k v (with_lifetime (lifetime_arg M key lt) options))]
   \<and> snd (increment M key n lt options h) =
       h @ [Client (CIncr k (case n of None \<Rightarrow> Num 1 | Some a \<Rightarrow> a)
              (with_lifetime (lifetime_arg M key lt) options))]
   \<and> snd (decrement M key n lt options h) =
       h @ [Client (CDecr k (case n of None \<Rightarrow> Num 1 | Some a \<Rightarrow> a)
              (with_lifetime (lifetime_arg M key lt) options))]
   \<and> snd (remember M key lt fnGet options h) =
       h @ Client (CGet k) #
         (case on_get (client M) h k of
            Inl e \<Rightarrow> []
          | Inr res \<Rightarrow>
              if truthy (opt_value res) then []
              else FnGet #
                (case fnGet (h @ [Client (CGet k)]) of
                   Inl e \<Rightarrow> []
                 | Inr w \<Rightarrow>
                     [Client (CSet k w (with_lifetime (lifetime_arg M key lt)
                        (Some (with_noreply options))))]))
   \<and> snd (rememberForever M key fnGet options h) =
       snd (remember M key (JNum (Num 0)) fnGet options h)
   \<and> snd (pull M key def h) =
       h @ Client (CGet k) #
         (case on_get (client M) h k of
            Inl e \<Rightarrow> []
          | Inr res \<Rightarrow> if truthy (opt_value res) then [Client (CDelete k None)] else [])
   \<and> snd (replace M key v lt options h) =
       h @ [Client (CReplace k v (with_lifetime (lifetime_arg M key lt) options))]
   \<and> snd (append_m M key v lt options h) =
       h @ [Client (CAppend k v (with_lifetime (lifetime_arg M key lt) options))]
   \<and> snd (prepend M key v lt options h) =
       h @ [Client (CPrepend k v (with_lifetime (lifetime_arg M key lt) options))]
   \<and> snd (incLifetime M key lt copts h) = h @ [Client (CTouch k (lifetime_arg M key lt) copts)]
   \<and> snd (gets M ks h) = h @ [Client (CGets ks)]"
proof -
  have unscoped:
    "new_Memcached c table sc = (new_Memcached c table None)\<lparr>scope := sc\<rparr>"
    "get (M\<lparr>scope := sc\<rparr>) = get M"
    "put (M\<lparr>scope := sc\<rparr>) = put M"
    "forever (M\<lparr>scope := sc\<rparr>) = forever M"
    "delete (M\<lparr>scope := sc\<rparr>) = delete M"
    "forget (M\<lparr>scope := sc\<rparr>) = forget M"
    "add (M\<lparr>scope := sc\<rparr>) = add M"
    "increment (M\<lparr>scope := sc\<rparr>) = increment M"
    "decrement (M\<lparr>scope := sc\<rparr>) = decrement M"
    "remember (M\<lparr>scope := sc\<rparr>) = remember M"
    "rememberForever (M\<lparr>scope := sc\<rparr>) = rememberForever M"
    "pull (M\<lparr>scope := sc\<rparr>) = pull M"
    "replace (M\<lparr>scope := sc\<rparr>) = replace M"
    "append_m (M\<lparr>scope := sc\<rparr>) = append_m M"
    "prepend (M\<lparr>scope := sc\<rparr>) = prepend M"
    "flush (M\<lparr>scope := sc\<rparr>) = flush M"
    "incLifetime (M\<lparr>scope := sc\<rparr>) = incLifetime M"
    "cmd (M\<lparr>scope := sc\<rparr>) = cmd M"
    "gets (M\<lparr>scope := sc\<rparr>) = gets M"
    by (simp_all add: new_Memcached_def fun_eq_iff facade_defs lifetime_arg_scope cong: if_cong)
  have single:
    "snd (get M key h) = h @ [Client (CGet k)]"
    "snd (put M key v lt options h) =
       h @ [Client (CSet k v (with_lifetime (lifetime_arg M key lt) options))]"
    "snd (forever M key v options h) =
       h @ [Client (CSet k v (with_lifetime (JNum (Num 0)) options))]"
    "snd (delete M key options h) = h @ [Client (CDelete k options)]"
    "snd (forget M key options h) = h @ [Client (CDelete k options)]"
    "snd (add M key v lt options h) =
       h @ [Client (CAdd k v (with_lifetime (lifetime_arg M key lt) options))]"
    "snd (increment M key n lt options h) =
       h @ [Client (CIncr k (case n of None \<Rightarrow> Num 1 | Some a \<Rightarrow> a)
              (with_lifetime (lifetime_arg M key lt) options))]"
    "snd (decrement M key n lt options h) =
       h @ [Client (CDecr k (case n of None \<Rightarrow> Num 1 | Some a \<Rightarrow> a)
              (with_lifetime (lifetime_arg M key lt) options))]"
    "snd (replace M key v lt options h) =
       h @ [Client (CReplace k v (with_lifetime (lifetime_arg M key lt) options))]"
    "snd (append_m M key v lt options h) =
       h @ [Client (CAppend k v (with_lifetime (lifetime_arg M key lt) options))]"
    "snd (prepend M key v lt options h) =
       h @ [Client (CPrepend k v (with_lifetime (lifetime_arg M key lt) options))]"
    "snd (incLifetime M key lt copts h) = h @ [Client (CTouch k (lifetime_arg M key lt) copts)]"
    "snd (gets M ks h) = h @ [Client (CGets ks)]"
    unfolding k_def
    by (simp_all add: get_run gets_run put_def forever_def delete_def forget_def add_def
        increment_def decrement_def replace_def append_m_def prepend_def incLifetime_def
        client_call_def)
  have remembered: "snd (remember M key lt fnGet options h) =
       h @ Client (CGet k) #
         (case on_get (client M) h k of
            Inl e \<Rightarrow> []
          | Inr res \<Rightarrow>
              if truthy (opt_value res) then []
              else FnGet #
                (case fnGet (h @ [Client (CGet k)]) of
                   Inl e \<Rightarrow> []
                 | Inr w \<Rightarrow>
                     [Client (CSet k w (with_lifetime (lifetime_arg M key lt)
                        (Some (with_noreply options))))]))"
    unfolding k_def by (simp add: remember_run Let_def split: sum.splits)
  have forever_remembered: "snd (rememberForever M key fnGet options h) =
       snd (remember M key (JNum (Num 0)) fnGet options h)"
    by (simp add: rememberForever_def)
  have pulled: "snd (pull M key def h) =
       h @ Client (CGet k) #
         (case on_get (client M) h k of
            Inl e \<Rightarrow> []
          | Inr res \<Rightarrow> if truthy (opt_value res) then [Client (CDelete k None)] else [])"
    unfolding k_def by (simp add: pull_run Let_def split: sum.splits)
  have keys: "resolveKey (KString s) = s" "resolveKey (KArray xs) = join ''/'' xs"
    by simp_all
  show ?thesis
    by (intro conjI) (fact unscoped single remembered forever_remembered pulled keys)+
qed

section \<open>Lifetimes\<close>

lemma default_lifetime_own_entry:
  "own (lifeTime M) (resolveKey key) = Has n \<Longrightarrow> lifetime_arg M key JUndefined = JNum n"
  by (simp add: lifetime_arg_def get_property_def)

lemma default_lifetime_no_property:
  "own (lifeTime M) (resolveKey key) = Absent \<Longrightarrow> inherited (lifeTime M) (resolveKey key) = None
    \<Longrightarrow> lifetime_arg M key JUndefined = JNum (Num 0)"
  by (simp add: lifetime_arg_def get_property_def)

text \<open>
  C6. A store-like operation called without a lifetime is documented to use the table's
  entry for the resolved key and \<open>0\<close> when there is none. With the default table
  \<open>{}\<close>, which has no entries, \<open>put\<close> of the key \<open>constructor\<close> does not send the
  lifetime \<open>0\<close>: \<open>this.lifeTime[key]\<close> finds the property \<open>constructor\<close> that every
  object inherits, so the function \<open>Object\<close> is sent as the lifetime.
\<close>

theorem default_lifetime_inherited_property:
  "snd (put (new_Memcached (test_client [] (Inr (JStr ''STORED''))) None None)
          (KString ''constructor'') (JNum (Num 1)) JUndefined None []) =
     [Client (CSet ''constructor'' (JNum (Num 1))
        \<lparr>noreply = Absent, ignoreNotStored = Absent, compress = Absent, lifetime = JObj 0\<rparr>)]
   \<and> JObj 0 \<noteq> JNum (Num 0)"
  by (simp add: new_Memcached_def empty_object_def Object_prototype_def put_def client_call_def
      with_lifetime_def lifetime_arg_def get_property_def)

text \<open>
  C8. \<open>forever\<close> stores the value under the resolved key with lifetime \<open>0\<close>, whatever
  the lifetime table holds, and \<open>rememberForever\<close> is \<open>remember\<close> with lifetime \<open>0\<close>.
\<close>

theorem forever_lifetime_zero:
  "forever M key v options h =
     (on_call (client M) h (CSet (resolveKey key) v (with_lifetime (JNum (Num 0)) options)),
      h @ [Client (CSet (resolveKey key) v (with_lifetime (JNum (Num 0)) options))])
   \<and> lifetime (with_lifetime (JNum (Num 0)) options) = JNum (Num 0)
   \<and> forever (M\<lparr>lifeTime := tbl\<rparr>) key v options h = forever M key v options h
   \<and> rememberForever M key fnGet options = remember M key (JNum (Num 0)) fnGet options
   \<and> rememberForever (M\<lparr>lifeTime := tbl\<rparr>) key fnGet options =
       rememberForever M key fnGet options"
  by (intro conjI ext)
    (simp_all add: forever_def rememberForever_def remember_def put_def get_def
      client_call_def lifetime_with_lifetime lifetime_arg_given cong: if_cong)

section \<open>\<open>gets\<close>\<close>

text \<open>
  C7. When the client's \<open>gets\<close> resolves, \<open>gets\<close> resolves to an array as long as the
  list of keys whose \<open>i\<close>-th element is the value the reply holds under the \<open>i\<close>-th key,
  \<open>undefined\<close> when the reply has no such key. The reply is read by key: a reply made of
  the same entries in another order gives the same array.
\<close>

theorem gets_matches_by_key:
  assumes "on_gets (client M) h ks = Inr data"
  shows "\<exists>vs. gets M ks h = (Inr vs, h @ [Client (CGets ks)])
           \<and> length vs = length ks
           \<and> (\<forall>i<length ks. vs ! i =
                 (case data (ks ! i) of None \<Rightarrow> JUndefined | Some r \<Rightarrow> value_r r))
           \<and> (\<forall>es es' M' h'.
                 data = map_of es \<and> on_gets (client M') h' ks = Inr (map_of es')
                 \<and> distinct (map fst es) \<and> distinct (map fst es') \<and> set es = set es'
                 \<longrightarrow> fst (gets M' ks h') = Inr vs)"
proof -
  let ?vs = "map (\<lambda>key. opt_value (data key)) ks"
  have run: "gets M ks h = (Inr ?vs, h @ [Client (CGets ks)])"
    using assms by (simp add: gets_run)
  have by_key: "\<forall>i<length ks. ?vs ! i =
      (case data (ks ! i) of None \<Rightarrow> JUndefined | Some r \<Rightarrow> value_r r)"
    by (simp add: opt_value_def)
  have any_order: "fst (gets M' ks h') = Inr ?vs"
    if "data = map_of es" and "on_gets (client M') h' ks = Inr (map_of es')"
      and "distinct (map fst es)" and "distinct (map fst es')" and "set es = set es'"
    for es es' M' h'
  proof -
    have "map_of es = map_of es'"
      using that(3-5) by (simp add: map_of_inject_set)
    then show ?thesis
      using that(1,2) by (simp add: gets_run)
  qed
  from run by_key any_order show ?thesis
    by (intro exI [of _ ?vs]) simp
qed

theorem gets_matches_by_key_witness:
  "gets \<lparr>client = test_client [(''c'', JStr ''3''), (''a'', JStr ''1'')] (Inr (JStr ''OK'')),
         lifeTime = empty_object, scope = None\<rparr> [''a'', ''b'', ''c''] [] =
     (Inr [JStr ''1'', JUndefined, JStr ''3''], [Client (CGets [''a'', ''b'', ''c''])])"
  using gets_matches_by_key
    [of "\<lparr>client = test_client [(''c'', JStr ''3''), (''a'', JStr ''1'')] (Inr (JStr ''OK'')),
          lifeTime = empty_object, scope = None\<rparr>" "[]" "[''a'', ''b'', ''c'']"
        "\<lambda>k. if k \<in> set [''a'', ''b'', ''c'']
             then map_option (\<lambda>v. \<lparr>value_r = v\<rparr>)
                    (map_of [(''c'', JStr ''3''), (''a'', JStr ''1'')] k)
             else None"]
  by (auto simp add: test_client_gets nth_Cons' list_eq_iff_nth_eq less_Suc_eq)

section \<open>\<open>flush\<close>\<close>

text \<open>
  C5. \<open>flush\<close> is documented with an optional delay whose default is an immediate
  flush, which on the wire is \<open>flush_all\<close> with no operand. Called without a delay, the
  source sends the command text \<open>flush_all undefined\<close>: the template literal renders the
  missing argument.
\<close>

theorem flush_without_delay_sends_undefined:
  "flush M None None h =
     (on_call (client M) h (CCmd ''flush_all undefined'' (Some \<lparr>noreply = Undef\<rparr>)),
      h @ [Client (CCmd ''flush_all undefined'' (Some \<lparr>noreply = Undef\<rparr>))])"
  by (simp add: flush_def client_call_def)

section \<open>Binary64 arithmetic on whole numbers\<close>

lemma round_even_of_int: "round_even (of_int k) = k"
  by (simp add: round_even_def)

lemma pow2_1024_gt: "(of_int a :: rat) \<le> 2 ^ 53 \<Longrightarrow> \<not> pow2 1024 \<le> of_int a"
proof -
  assume "(of_int a :: rat) \<le> 2 ^ 53"
  moreover have "(2::rat) ^ 53 < 2 ^ 1024"
    by (rule power_strict_increasing) simp_all
  ultimately show ?thesis
    by (simp add: pow2_def)
qed

text \<open>A whole number of magnitude at most \<open>2^53\<close> is a binary64 value: rounding keeps it.\<close>

lemma round64_of_int:
  assumes "\<bar>i\<bar> \<le> 2 ^ 53"
  shows "round64 (of_int i) = Num (of_int i)"
proof (cases "i = 0")
  case True
  then show ?thesis by (simp add: round64_def)
next
  case False
  define a where "a = \<bar>i\<bar>"
  define e where "e = bitlen a - 1"
  have a_pos: "0 < a" using False by (simp add: a_def)
  have abs_x: "\<bar>of_int i :: rat\<bar> = of_int a" by (simp add: a_def)
  have expo_x: "expo (of_int i) = e"
    using a_pos by (simp add: expo_def abs_x e_def)
  have lower: "2 ^ nat e \<le> a"
    using bitlen_bounds [OF a_pos] by (simp add: e_def)
  have e_nonneg: "0 \<le> e"
    using a_pos bitlen_eq_zero_iff [of a] bitlen_nonneg [of a] by (simp add: e_def)
  have e_le: "e \<le> 53"
  proof (rule ccontr)
    assume "\<not> e \<le> 53"
    then have "54 \<le> nat e" by simp
    then have "(2::int) ^ 54 \<le> 2 ^ nat e"
      by (intro power_increasing) simp_all
    with lower assms show False by (simp add: a_def)
  qed
  have no_overflow: "\<not> pow2 1024 \<le> \<bar>of_int i :: rat\<bar>"
  proof -
    have "(of_int a :: rat) \<le> 2 ^ 53"
      using assms unfolding a_def by (metis of_int_le_iff of_int_numeral of_int_power)
    then show ?thesis unfolding abs_x by (rule pow2_1024_gt)
  qed
  have scaled: "of_int (round_even (of_int i / pow2 (e - 52))) * pow2 (e - 52) = (of_int i :: rat)"
  proof (cases "e \<le> 52")
    case True
    then have u: "pow2 (e - 52) = 1 / 2 ^ nat (52 - e)"
      by (cases "e = 52") (simp_all add: pow2_def)
    have "of_int i / pow2 (e - 52) = (of_int (i * 2 ^ nat (52 - e)) :: rat)"
      by (simp add: u)
    then have "round_even (of_int i / pow2 (e - 52)) = i * 2 ^ nat (52 - e)"
      by (simp only: round_even_of_int)
    then show ?thesis by (simp add: u)
  next
    case False
    with e_le have e53: "e = 53" by simp
    with lower assms have "a = 2 ^ 53" by (simp add: a_def)
    then have "i = 9007199254740992 \<or> i = - 9007199254740992"
      unfolding a_def by (simp add: abs_if split: if_splits)
    then have i_cases: "i = 2 * (i div 2)"
      by auto
    have u: "pow2 (e - 52) = 2" by (simp add: e53 pow2_def)
    have "of_int i / pow2 (e - 52) = (of_int (i div 2) :: rat)"
      unfolding u by (subst i_cases) (simp del: of_int_mult add: of_int_mult [of 2])
    then have "round_even (of_int i / pow2 (e - 52)) = i div 2"
      by (simp only: round_even_of_int)
    then show ?thesis
      unfolding u using i_cases by (metis of_int_mult of_int_numeral mult.commute)
  qed
  have "max e (- 1022) = e" using e_nonneg by simp
  then show ?thesis
    using False no_overflow scaled by (simp add: round64_def expo_x Let_def)
qed

text \<open>Rules that let the simplifier evaluate a rounding at a concrete number.\<close>

lemma floor_rat_numeral: "\<lfloor>numeral a / numeral b :: rat\<rfloor> = numeral a div numeral b"
  by (metis floor_divide_of_int_eq of_int_numeral)

lemma ceiling_rat_numeral: "\<lceil>numeral a / numeral b :: rat\<rceil> = - (- numeral a div numeral b)"
  by (metis ceiling_divide_eq_div of_int_numeral)

lemmas round64_eval = round64_def expo_def pow2_def round_even_def Let_def trunc_def
  floor_rat_numeral ceiling_rat_numeral compute_bitlen

lemma times_n_commute: "times_n a b = times_n b a"
  by (cases a; cases b) (simp_all add: mult.commute)

lemma times_n_whole:
  assumes "\<bar>a * b\<bar> \<le> 2 ^ 53"
  shows "times_n (Num (of_int a)) (Num (of_int b)) = Num (of_int (a * b))"
  using round64_of_int [OF assms] by simp

lemma plus_n_whole:
  assumes "\<bar>a + b\<bar> \<le> 2 ^ 53"
  shows "plus_n (Num (of_int a)) (Num (of_int b)) = Num (of_int (a + b))"
  using round64_of_int [OF assms] by simp

lemma TimeClip_whole:
  "TimeClip (Num (of_int v)) = (if 8640000000000000 < \<bar>v\<bar> then NaN else Num (of_int v))"
proof -
  have "(8640000000000000 < \<bar>of_int v :: rat\<bar>) = (8640000000000000 < \<bar>v\<bar>)"
    by (metis of_int_abs of_int_less_iff of_int_numeral)
  moreover have "trunc (of_int v) = v"
    by (simp add: trunc_def)
  ultimately show ?thesis by simp
qed

section \<open>\<open>Now\<close>\<close>

text \<open>
  C10, as stated: for every number \<open>n\<close> the larger units equal \<open>addSeconds\<close> of the
  converted amount, and every call advances the stored time by that amount. Both fail on
  an instance at time \<open>0\<close>. \<open>addDays(0.001)\<close> computes \<open>0.001 * 24 * 60 * 60 * 1000\<close>
  step by step in binary64 and lands just below \<open>86400\<close>, so it stores \<open>86399\<close>
  milliseconds, while \<open>addSeconds(86400 * 0.001)\<close> stores \<open>86400\<close>. And
  \<open>addMinutes(0.00001)\<close> is \<open>0.6\<close> milliseconds, which \<open>setTime\<close> truncates: the
  stored time stays \<open>0\<close>. Even a whole number of milliseconds can be lost:
  \<open>1.001 * 1000\<close> is just below \<open>1001\<close> in binary64, so \<open>addSeconds(1.001)\<close> stores
  \<open>1000\<close>.
\<close>

theorem add_units_counterexample:
  "snd (addDays \<lparr>now = Num 0\<rparr> (round64 (1 / 1000))) = \<lparr>now = Num 86399\<rparr>
   \<and> snd (addSeconds \<lparr>now = Num 0\<rparr> (times_n (Num 86400) (round64 (1 / 1000)))) =
       \<lparr>now = Num 86400\<rparr>
   \<and> snd (addMinutes \<lparr>now = Num 0\<rparr> (round64 (1 / 100000))) = \<lparr>now = Num 0\<rparr>
   \<and> snd (addSeconds \<lparr>now = Num 0\<rparr> (round64 (1001 / 1000))) = \<lparr>now = Num 1000\<rparr>"
  by (simp add: addDays_def addHours_def addMinutes_def addSeconds_def round64_eval)

text \<open>
  C10, amended: \<open>addMinutes(n)\<close> equals \<open>addSeconds(60 * n)\<close> for every number \<open>n\<close>.
  For every whole number \<open>n\<close> with \<open>86400 * |n|\<close> at most \<open>2^53\<close>, \<open>addHours(n)\<close>
  equals \<open>addSeconds(3600 * n)\<close> and \<open>addDays(n)\<close> equals \<open>addSeconds(86400 * n)\<close>,
  the products being exact. On an instance holding the time \<open>t\<close>, \<open>addSeconds\<close> of a
  whole number \<open>j\<close> of seconds (with \<open>1000 * j\<close> and \<open>t + 1000 * j\<close> of magnitude at
  most \<open>2^53\<close>) advances the stored time by exactly \<open>j\<close> seconds and returns the new
  time divided by \<open>1000\<close>, when the new time is within the range of \<open>Date\<close>; beyond
  that range the stored time and the result are \<open>NaN\<close>.
\<close>

theorem add_units_as_seconds:
  "addMinutes N n = addSeconds N (times_n (Num 60) n)
   \<and> (\<bar>i\<bar> * 86400 \<le> 9007199254740992 \<longrightarrow>
        addHours N (Num (of_int i)) = addSeconds N (times_n (Num 3600) (Num (of_int i)))
      \<and> addDays N (Num (of_int i)) = addSeconds N (times_n (Num 86400) (Num (of_int i)))
      \<and> times_n (Num 60) (Num (of_int i)) = Num (of_int (60 * i))
      \<and> times_n (Num 3600) (Num (of_int i)) = Num (of_int (3600 * i))
      \<and> times_n (Num 86400) (Num (of_int i)) = Num (of_int (86400 * i)))
   \<and> (now N = Num (of_int t) \<and> \<bar>1000 * j\<bar> \<le> 9007199254740992
        \<and> \<bar>t + 1000 * j\<bar> \<le> 9007199254740992 \<longrightarrow>
      addSeconds N (Num (of_int j)) =
        (if 8640000000000000 < \<bar>t + 1000 * j\<bar> then (NaN, N\<lparr>now := NaN\<rparr>)
         else (round64 (of_int (t + 1000 * j) / 1000),
               N\<lparr>now := Num (of_int (t + 1000 * j))\<rparr>)))"
proof -
  have minutes: "addMinutes N n = addSeconds N (times_n (Num 60) n)"
    by (simp add: addMinutes_def times_n_commute)
  have units: "addHours N (Num (of_int i)) = addSeconds N (times_n (Num 3600) (Num (of_int i)))
      \<and> addDays N (Num (of_int i)) = addSeconds N (times_n (Num 86400) (Num (of_int i)))
      \<and> times_n (Num 60) (Num (of_int i)) = Num (of_int (60 * i))
      \<and> times_n (Num 3600) (Num (of_int i)) = Num (of_int (3600 * i))
      \<and> times_n (Num 86400) (Num (of_int i)) = Num (of_int (86400 * i))"
    if small: "\<bar>i\<bar> * 86400 \<le> 9007199254740992"
  proof -
    have exact: "times_n (Num (of_int a)) (Num (of_int c)) = Num (of_int (a * c))"
      if "\<bar>a * c\<bar> \<le> 9007199254740992" for a c
      using that by (intro times_n_whole) simp
    have by24: "times_n (Num (of_int i)) (Num 24) = Num (of_int (i * 24))"
      using exact [of i 24] small by (simp add: abs_mult)
    have by60: "times_n (Num (of_int i)) (Num 60) = Num (of_int (i * 60))"
      using exact [of i 60] small by (simp add: abs_mult)
    have by1440: "times_n (Num (of_int (i * 24))) (Num 60) = Num (of_int (i * 1440))"
      using exact [of "i * 24" 60] small by (simp add: abs_mult)
    have by3600: "times_n (Num (of_int (i * 60))) (Num 60) = Num (of_int (i * 3600))"
      using exact [of "i * 60" 60] small by (simp add: abs_mult)
    have by86400: "times_n (Num (of_int (i * 1440))) (Num 60) = Num (of_int (i * 86400))"
      using exact [of "i * 1440" 60] small by (simp add: abs_mult)
    have direct3600: "times_n (Num 3600) (Num (of_int i)) = Num (of_int (i * 3600))"
      using exact [of 3600 i] small by (simp add: abs_mult mult.commute)
    have direct86400: "times_n (Num 86400) (Num (of_int i)) = Num (of_int (i * 86400))"
      using exact [of 86400 i] small by (simp add: abs_mult mult.commute)
    have direct60: "times_n (Num 60) (Num (of_int i)) = Num (of_int (i * 60))"
      using by60 by (simp add: times_n_commute)
    have hours: "addHours N (Num (of_int i)) = addSeconds N (Num (of_int (i * 3600)))"
      unfolding addHours_def addMinutes_def by60 by3600 ..
    have days: "addDays N (Num (of_int i)) = addSeconds N (Num (of_int (i * 86400)))"
      unfolding addDays_def addHours_def addMinutes_def by24 by1440 by86400 ..
    show ?thesis
      unfolding hours days direct60 direct3600 direct86400 by (simp add: mult.commute)
  qed
  have advance: "addSeconds N (Num (of_int j)) =
        (if 8640000000000000 < \<bar>t + 1000 * j\<bar> then (NaN, N\<lparr>now := NaN\<rparr>)
         else (round64 (of_int (t + 1000 * j) / 1000),
               N\<lparr>now := Num (of_int (t + 1000 * j))\<rparr>))"
    if valid: "now N = Num (of_int t)" and amount: "\<bar>1000 * j\<bar> \<le> 9007199254740992"
      and sum: "\<bar>t + 1000 * j\<bar> \<le> 9007199254740992"
  proof -
    have ms: "times_n (Num (of_int j)) (Num 1000) = Num (of_int (1000 * j))"
      using times_n_whole [of j 1000] amount by (simp add: mult.commute)
    have new: "plus_n (now N) (Num (of_int (1000 * j))) = Num (of_int (t + 1000 * j))"
      unfolding valid using sum by (intro plus_n_whole) simp
    show ?thesis
      unfolding addSeconds_def ms new TimeClip_whole by (simp add: Let_def)
  qed
  from minutes units advance show ?thesis by blast
qed

theorem add_units_as_seconds_witness:
  "addMinutes \<lparr>now = Num 1000\<rparr> (Num 2) = addSeconds \<lparr>now = Num 1000\<rparr> (Num 120)
   \<and> addHours \<lparr>now = Num 1000\<rparr> (Num 2) = addSeconds \<lparr>now = Num 1000\<rparr> (Num 7200)
   \<and> addDays \<lparr>now = Num 1000\<rparr> (Num 2) = addSeconds \<lparr>now = Num 1000\<rparr> (Num 172800)
   \<and> addSeconds \<lparr>now = Num 1000\<rparr> (Num 90) = (Num 91, \<lparr>now = Num 91000\<rparr>)"
proof -
  have r: "round64 91 = Num 91"
    using round64_of_int [of 91] by simp
  show ?thesis
    using add_units_as_seconds [of "\<lparr>now = Num 1000\<rparr>" "Num 2" 2 1000 90] r
    by simp
qed

end
